theory Spec2Isabelle
  imports Main "HOL-Library.Word" "HOL-Library.Sublist"
begin

unbundle bit_operations_syntax

section \<open>Python values and built-ins used by the scripts\<close>

text \<open>
  A \<^verbatim>\<open>bytes\<close> object is a list of 8-bit words; \<^verbatim>\<open>list(data)\<close> turns it into
  Python integers, which are unbounded and modelled as \<^typ>\<open>int\<close>.
\<close>

type_synonym byte = "8 word"
type_synonym bytes = "byte list"

text \<open>A bytes literal such as \<^verbatim>\<open>b'4MB'\<close>: one byte per ASCII character.\<close>

definition bytes_lit :: "string \<Rightarrow> bytes" where
  "bytes_lit s = map of_char s"

text \<open>
  \<^verbatim>\<open>s.decode(errors='ignore')\<close>. Every byte below \<^verbatim>\<open>0x80\<close> decodes to the ASCII
  character of the same code. The scripts decode only their own ASCII literals, so the
  treatment of larger bytes (dropped here, as an undecodable byte is) is never exercised.
\<close>

definition decode_ignore :: "bytes \<Rightarrow> string" where
  "decode_ignore s = map (\<lambda>w. char_of (uint w)) (filter (\<lambda>w. w < 0x80) s)"

text \<open>The operator \<^verbatim>\<open>s in content\<close> on bytes: \<^verbatim>\<open>s\<close> occurs at some offset.\<close>

fun bytes_in :: "bytes \<Rightarrow> bytes \<Rightarrow> bool" where
  "bytes_in s [] = (s = [])"
| "bytes_in s (c # content) = (prefix s (c # content) \<or> bytes_in s content)"

text \<open>
  \<^verbatim>\<open>data.find(p)\<close>: the lowest offset at which \<^verbatim>\<open>p\<close> occurs, or \<^verbatim>\<open>-1\<close>.
\<close>

fun bytes_find :: "bytes \<Rightarrow> bytes \<Rightarrow> int" where
  "bytes_find content p =
     (if prefix p content then 0
      else case content of
        [] \<Rightarrow> - 1
      | c # rest \<Rightarrow> (let off = bytes_find rest p in if off = - 1 then - 1 else off + 1))"

text \<open>Integer formatting: \<^verbatim>\<open>str(n)\<close>, and the format specs \<^verbatim>\<open>02x\<close>, \<^verbatim>\<open>08b\<close>.\<close>

definition digit_char :: "nat \<Rightarrow> char" where
  "digit_char d = ''0123456789abcdef'' ! d"

function digits :: "nat \<Rightarrow> nat \<Rightarrow> string" where
  "digits base n =
     (if base < 2 \<or> n < base then [digit_char n]
      else digits base (n div base) @ [digit_char (n mod base)])"
  by pat_completeness auto
termination
  by (relation "measure snd") auto

declare digits.simps [simp del]

text \<open>
  A zero-padded format spec \<^verbatim>\<open>0{width}{x|b|d}\<close>: the sign comes first and counts in the
  width, the zeros follow it.
\<close>

definition format_int :: "nat \<Rightarrow> nat \<Rightarrow> int \<Rightarrow> string" where
  "format_int base width n =
     (let sign = (if n < 0 then ''-'' else '''');
          ds = digits base (nat \<bar>n\<bar>)
      in sign @ replicate (width - length sign - length ds) CHR ''0'' @ ds)"

definition str_int :: "int \<Rightarrow> string" where
  "str_int n = format_int 10 0 n"

definition hex :: "int \<Rightarrow> string" where
  "hex n = (if n < 0 then ''-'' else '''') @ ''0x'' @ digits 16 (nat \<bar>n\<bar>)"

text \<open>\<^verbatim>\<open>sep.join(parts)\<close>.\<close>

fun str_join :: "string \<Rightarrow> string list \<Rightarrow> string" where
  "str_join sep [] = []"
| "str_join sep [p] = p"
| "str_join sep (p # q # ps) = p @ sep @ str_join sep (q # ps)"

text \<open>
  \<^verbatim>\<open>print(a, b, ...)\<close> writes its arguments separated by one space and then a
  newline. The standard output of a run is the list of the texts written by its
  \<^verbatim>\<open>print\<close> calls, in order, each without its final newline; \<open>render\<close> gives the
  characters that reach the stream.
\<close>

definition py_print :: "string list \<Rightarrow> string" where
  "py_print args = str_join '' '' args"

definition render :: "string list \<Rightarrow> string" where
  "render prints = concat (map (\<lambda>p. p @ [CHR 0x0A]) prints)"

text \<open>\<^verbatim>\<open>d.get(k, default)\<close> on a dictionary.\<close>

definition dict_get :: "('k \<rightharpoonup> 'v) \<Rightarrow> 'k \<Rightarrow> 'v \<Rightarrow> 'v" where
  "dict_get d k dflt = (case d k of Some v \<Rightarrow> v | None \<Rightarrow> dflt)"

text \<open>
  How a run ends: \<^verbatim>\<open>sys.exit(n)\<close>, \<^verbatim>\<open>raise SystemExit(n)\<close> or falling off the
  end of the script (status 0), or an exception that nothing catches, for which the
  interpreter prints a traceback on the error stream and exits with status 1.
\<close>

datatype exn = IndexError | FileNotFoundError | PermissionError | IsADirectoryError

datatype outcome = Exited int | Uncaught exn

fun exit_status :: "outcome \<Rightarrow> int" where
  "exit_status (Exited n) = n"
| "exit_status (Uncaught e) = 1"

record process =
  stdout :: "string list"
  outcome :: outcome

text \<open>
  The file system as the scripts see it: \<^verbatim>\<open>open(fn, 'rb')\<close> either raises an
  \<^verbatim>\<open>OSError\<close> (the path is missing, is a directory or may not be read) or gives a
  file object, from which \<^verbatim>\<open>read\<close> takes the content.
\<close>

type_synonym filesystem = "string \<Rightarrow> exn + bytes"


section \<open>\<^verbatim>\<open>tools/parse_image_header.py\<close>\<close>

definition size_map :: "int \<rightharpoonup> string" where
  "size_map = map_of
     [(0, ''1MB''), (1, ''2MB''), (2, ''4MB''), (3, ''8MB''), (4, ''16MB''), (5, ''32MB'')]"

definition low3 :: "int \<Rightarrow> int" where
  "low3 spi_byte = spi_byte AND 0x7"

definition low4 :: "int \<Rightarrow> int" where
  "low4 spi_byte = spi_byte AND 0xf"

definition high3 :: "int \<Rightarrow> int" where
  "high3 spi_byte = drop_bit 4 spi_byte AND 0x7"

text \<open>
  Lines 15 to 42 of the script, which run once \<^verbatim>\<open>len(data) < 8\<close> has been excluded:
  the hex dump of the first 16 bytes, the three header fields and the three candidate
  decodings of the spi byte.
\<close>

definition header_report :: "bytes \<Rightarrow> string list" where
  "header_report data =
     (let b = map uint data;
          magic = b ! 0;
          seg_count = b ! 1;
          spi_byte = b ! 2
      in [py_print [''Header bytes:'', str_join '' '' (map (format_int 16 2) (take 16 b))],
          py_print [''Magic: 0x'' @ format_int 16 2 magic],
          py_print [''Segment count: '' @ str_int seg_count],
          py_print [''Raw spi byte: 0x'' @ format_int 16 2 spi_byte
                      @ '' ('' @ format_int 2 8 spi_byte @ '')''],
          py_print [''Decoded candidates:''],
          py_print ['' - lower 3 bits ->'', str_int (low3 spi_byte),
                    dict_get size_map (low3 spi_byte) ''unknown''],
          py_print ['' - lower 4 bits ->'', str_int (low4 spi_byte),
                    dict_get size_map (low4 spi_byte) ''unknown''],
          py_print ['' - upper 3 bits ->'', str_int (high3 spi_byte),
                    dict_get size_map (high3 spi_byte) ''unknown'']])"

text \<open>Lines 47 to 49: the loop over the six literals, in the order of the list.\<close>

definition markers :: "bytes list" where
  "markers = map bytes_lit [''4096'', ''8192'', ''8MB'', ''4MB'', ''8192k'', ''4096k'']"

fun marker_scan :: "bytes list \<Rightarrow> bytes \<Rightarrow> string list" where
  "marker_scan [] content = []"
| "marker_scan (s # rest) content =
     (if bytes_in s content
      then py_print [''Found ascii marker:'', decode_ignore s] # marker_scan rest content
      else marker_scan rest content)"

text \<open>
  The whole script. \<^verbatim>\<open>sys.argv[1]\<close> raises when no argument was given; each of the
  two \<^verbatim>\<open>open\<close> calls raises when the path cannot be opened; \<^verbatim>\<open>f.read(32)\<close> gives
  at most 32 bytes. Both opens consult the same file system: the file is not modified
  while the script runs.
\<close>

definition parse_image_header :: "string list \<Rightarrow> filesystem \<Rightarrow> process" where
  "parse_image_header argv fs =
     (if length argv \<le> 1 then \<lparr>stdout = [], outcome = Uncaught IndexError\<rparr>
      else let fn = argv ! 1 in
        case fs fn of
          Inl e \<Rightarrow> \<lparr>stdout = [], outcome = Uncaught e\<rparr>
        | Inr file \<Rightarrow>
            let data = take 32 file in
            if length data < 8
            then \<lparr>stdout = [py_print [''File too small'']], outcome = Exited 2\<rparr>
            else let out = header_report data in
              case fs fn of
                Inl e \<Rightarrow> \<lparr>stdout = out, outcome = Uncaught e\<rparr>
              | Inr content \<Rightarrow>
                  \<lparr>stdout = out @ marker_scan markers content
                             @ [py_print [CHR 0x0A # ''Done'']],
                   outcome = Exited 0\<rparr>)"


section \<open>\<^verbatim>\<open>tools/scan_firmware.py\<close>\<close>

text \<open>
  The second script reads one fixed path and prints, for each pattern that occurs, the
  pattern and the offset of its first occurrence. It catches \<^verbatim>\<open>FileNotFoundError\<close>
  (and no other \<^verbatim>\<open>OSError\<close>), prints \<^verbatim>\<open>MISSING\<close> and the path, and exits
  with status 1. \<^verbatim>\<open>p.decode()\<close> is applied to the six ASCII literals only, on which
  the strict and the ignoring decoder agree.
\<close>

definition patterns :: "bytes list" where
  "patterns = map bytes_lit [''8192'', ''4096'', ''8MB'', ''4MB'', ''8192k'', ''4096k'']"

definition path :: string where
  "path = ''.pio'' @ [CHR 0x5C] @ ''build'' @ [CHR 0x5C] @ ''esp32-s3-devkitc-1''
            @ [CHR 0x5C] @ ''firmware.bin''"

fun pattern_scan :: "bytes list \<Rightarrow> bytes \<Rightarrow> string list" where
  "pattern_scan [] data = []"
| "pattern_scan (p # rest) data =
     (let off = bytes_find data p
      in if off \<noteq> - 1
         then py_print [decode_ignore p, hex off] # pattern_scan rest data
         else pattern_scan rest data)"

definition scan_firmware :: "filesystem \<Rightarrow> process" where
  "scan_firmware fs =
     (case fs path of
        Inl e \<Rightarrow>
          if e = FileNotFoundError
          then \<lparr>stdout = [py_print [''MISSING'', path]], outcome = Exited 1\<rparr>
          else \<lparr>stdout = [], outcome = Uncaught e\<rparr>
      | Inr data \<Rightarrow> \<lparr>stdout = pattern_scan patterns data, outcome = Exited 0\<rparr>)"


section \<open>Test inputs\<close>

text \<open>A file system that holds one file, used to run the scripts on concrete inputs.\<close>

definition single_file :: "string \<Rightarrow> bytes \<Rightarrow> filesystem" where
  "single_file name content p = (if p = name then Inr content else Inl FileNotFoundError)"


section \<open>The candidate decodings of the spi byte\<close>

lemma low3_range: "0 \<le> low3 c \<and> low3 c \<le> 7"
  by (simp add: low3_def AND_upper2')

lemma low4_range: "0 \<le> low4 c \<and> low4 c \<le> 15"
  by (simp add: low4_def AND_upper2')

lemma high3_range: "0 \<le> high3 c \<and> high3 c \<le> 7"
  by (simp add: high3_def AND_upper2')

lemma size_map_get:
  "dict_get size_map k ''unknown'' =
     (if k = 0 then ''1MB'' else if k = 1 then ''2MB'' else if k = 2 then ''4MB''
      else if k = 3 then ''8MB'' else if k = 4 then ''16MB'' else if k = 5 then ''32MB''
      else ''unknown'')"
  by (simp add: dict_get_def size_map_def)

text \<open>
  C1: for every spi byte from 0 to 255, the lower three bits lie in 0..7, the lower four
  bits in 0..15 and the upper three bits in 0..7; a lookup of the codes 0 to 5 in the size
  table gives 1MB, 2MB, 4MB, 8MB, 16MB, 32MB, and a lookup of any other code gives
  "unknown" (a value, not an error).
\<close>

theorem C1_candidates_in_range_and_labels:
  assumes "0 \<le> c" and "c \<le> 255"
  shows "(low3 c = c AND 7 \<and> low3 c \<in> {0..7})
       \<and> (low4 c = c AND 15 \<and> low4 c \<in> {0..15})
       \<and> (high3 c = drop_bit 4 c AND 7 \<and> high3 c \<in> {0..7})
       \<and> map (\<lambda>k. dict_get size_map k ''unknown'') [0, 1, 2, 3, 4, 5]
           = [''1MB'', ''2MB'', ''4MB'', ''8MB'', ''16MB'', ''32MB'']
       \<and> (\<forall>k. k \<notin> {0..5} \<longrightarrow> dict_get size_map k ''unknown'' = ''unknown'')"
proof -
  have "low3 c = c AND 7 \<and> low3 c \<in> {0..7}"
    using low3_range [of c] by (simp add: low3_def)
  moreover have "low4 c = c AND 15 \<and> low4 c \<in> {0..15}"
    using low4_range [of c] by (simp add: low4_def)
  moreover have "high3 c = drop_bit 4 c AND 7 \<and> high3 c \<in> {0..7}"
    using high3_range [of c] by (simp add: high3_def)
  moreover have "map (\<lambda>k. dict_get size_map k ''unknown'') [0, 1, 2, 3, 4, 5]
           = [''1MB'', ''2MB'', ''4MB'', ''8MB'', ''16MB'', ''32MB'']"
    by (simp add: size_map_get)
  moreover have "\<forall>k. k \<notin> {0..5} \<longrightarrow> dict_get size_map k ''unknown'' = ''unknown''"
    by (auto simp add: size_map_get)
  ultimately show ?thesis by blast
qed

theorem C1_witness:
  "(0::int) \<le> 0x6B \<and> (0x6B::int) \<le> 255
   \<and> low3 0x6B = 3 \<and> low4 0x6B = 11 \<and> high3 0x6B = 6
   \<and> (11::int) \<notin> {0..5} \<and> dict_get size_map (low4 0x6B) ''unknown'' = ''unknown''"
proof -
  have a: "(0::int) \<le> 0x6B" and b: "(0x6B::int) \<le> 255" by simp_all
  have v: "low3 0x6B = 3 \<and> low4 0x6B = 11 \<and> high3 0x6B = 6"
    using C1_candidates_in_range_and_labels [OF a b] by simp
  have n: "(11::int) \<notin> {0..5}" by simp
  have "dict_get size_map 11 ''unknown'' = ''unknown''"
    using C1_candidates_in_range_and_labels [OF a b] n by blast
  with v n show ?thesis by simp
qed

lemma low3_of_low4: "low3 c = low4 c AND 7"
  by (simp add: low3_def low4_def and.assoc)

lemma low3_ignores_bit7: "low3 (c AND 127) = low3 c"
  by (simp add: low3_def and.assoc)

lemma low4_ignores_bit7: "low4 (c AND 127) = low4 c"
  by (simp add: low4_def and.assoc)

lemma high3_ignores_bit7: "high3 (c AND 127) = high3 c"
  unfolding high3_def by (rule bit_eqI) (auto simp add: bit_simps)

text \<open>
  C8: bit 7 of the spi byte has no influence on the candidates. Two values that agree on
  bits 0 to 6 give the same three extracted values and the same three labels.
\<close>

theorem C8_bit7_irrelevant:
  assumes "c AND 127 = d AND 127"
  shows "low3 c = low3 d \<and> low4 c = low4 d \<and> high3 c = high3 d
       \<and> dict_get size_map (low3 c) ''unknown'' = dict_get size_map (low3 d) ''unknown''
       \<and> dict_get size_map (low4 c) ''unknown'' = dict_get size_map (low4 d) ''unknown''
       \<and> dict_get size_map (high3 c) ''unknown'' = dict_get size_map (high3 d) ''unknown''"
proof -
  have "low3 c = low3 d"
    using assms low3_ignores_bit7 [of c] low3_ignores_bit7 [of d] by simp
  moreover have "low4 c = low4 d"
    using assms low4_ignores_bit7 [of c] low4_ignores_bit7 [of d] by simp
  moreover have "high3 c = high3 d"
    using assms high3_ignores_bit7 [of c] high3_ignores_bit7 [of d] by simp
  ultimately show ?thesis by simp
qed

theorem C8_witness:
  "(0x25::int) AND 127 = 0xA5 AND 127 \<and> (0x25::int) \<noteq> 0xA5
   \<and> low3 0x25 = low3 0xA5 \<and> low4 0x25 = low4 0xA5 \<and> high3 0x25 = high3 0xA5
   \<and> high3 0xA5 = 2 \<and> dict_get size_map (high3 0xA5) ''unknown'' = ''4MB''"
proof -
  have h: "(0x25::int) AND 127 = 0xA5 AND 127" by simp
  have "high3 0x25 = 2" by (simp add: high3_def)
  with h C8_bit7_irrelevant [OF h] show ?thesis by (simp add: size_map_get)
qed

text \<open>
  C9: the lower-3-bits value is the lower-4-bits value masked with 7. So when bit 3 of
  the spi byte is 0, the two candidates have the same value and the same label.
\<close>

theorem C9_low3_from_low4:
  "low3 c = low4 c AND 7
   \<and> (\<not> bit c 3 \<longrightarrow> low3 c = low4 c
        \<and> dict_get size_map (low3 c) ''unknown'' = dict_get size_map (low4 c) ''unknown'')"
proof -
  have "low3 c = low4 c" if "\<not> bit c 3"
    unfolding low3_def low4_def
  proof (rule bit_eqI)
    fix n
    show "bit (c AND 0x7) n = bit (c AND 0xf) n"
    proof (cases "n = 3")
      case True
      with that show ?thesis by (simp add: bit_simps)
    next
      case False
      then have "n < 3 \<longleftrightarrow> n < 4" by arith
      then show ?thesis
        using bit_mask_iff [of 3 n, where ?'a = int] bit_mask_iff [of 4 n, where ?'a = int]
        by (simp add: bit_and_iff mask_eq_exp_minus_1)
    qed
  qed
  then show ?thesis by (simp add: low3_of_low4)
qed

theorem C9_witness:
  "\<not> bit (0x25::int) 3 \<and> low3 0x25 = 5 \<and> low4 0x25 = 5
   \<and> dict_get size_map (low4 0x25) ''unknown'' = ''32MB''"
proof -
  have h: "\<not> bit (0x25::int) 3" by simp
  have "low3 0x25 = 5" by (simp add: low3_def)
  with h C9_low3_from_low4 [of "0x25"] show ?thesis by (simp add: size_map_get)
qed


section \<open>The three ways a run of the header decoder ends\<close>

lemma run_too_small:
  assumes "1 < length argv" and "fs (argv ! 1) = Inr img" and "length (take 32 img) < 8"
  shows "parse_image_header argv fs = \<lparr>stdout = [''File too small''], outcome = Exited 2\<rparr>"
  using assms by (simp add: parse_image_header_def py_print_def)

lemma run_cannot_open:
  assumes "1 < length argv" and "fs (argv ! 1) = Inl e"
  shows "parse_image_header argv fs = \<lparr>stdout = [], outcome = Uncaught e\<rparr>"
  using assms by (simp add: parse_image_header_def)

lemma run_report:
  assumes "1 < length argv" and "fs (argv ! 1) = Inr img" and "8 \<le> length img"
  shows "parse_image_header argv fs =
           \<lparr>stdout = header_report (take 32 img) @ marker_scan markers img
                       @ [CHR 0x0A # ''Done''],
            outcome = Exited 0\<rparr>"
  using assms by (simp add: parse_image_header_def py_print_def Let_def)

text \<open>
  C2: when the file opens and its header window (the first 32 bytes at most) has fewer
  than 8 bytes, the run prints "File too small" and nothing else, and ends through
  \<^verbatim>\<open>sys.exit(2)\<close>, not through an uncaught exception. Status 2 differs from the
  status of a run on a missing file.
\<close>

theorem C2_too_small:
  assumes "1 < length argv" and "fs (argv ! 1) = Inr img" and "length (take 32 img) < 8"
  shows "stdout (parse_image_header argv fs) = [''File too small'']
       \<and> outcome (parse_image_header argv fs) = Exited 2
       \<and> exit_status (outcome (parse_image_header argv fs)) = 2
       \<and> exit_status (outcome (parse_image_header argv fs))
           \<noteq> exit_status (outcome (parse_image_header argv (\<lambda>p. Inl FileNotFoundError)))"
  using assms run_too_small [of argv fs img]
    run_cannot_open [of argv "\<lambda>p. Inl FileNotFoundError" FileNotFoundError]
  by simp

theorem C2_witness:
  "1 < length [''parse_image_header.py'', ''empty.bin'']
   \<and> single_file ''empty.bin'' [] ([''parse_image_header.py'', ''empty.bin''] ! 1) = Inr []
   \<and> length (take 32 ([]::bytes)) < 8
   \<and> parse_image_header [''parse_image_header.py'', ''empty.bin''] (single_file ''empty.bin'' [])
        = \<lparr>stdout = [''File too small''], outcome = Exited 2\<rparr>"
proof -
  have a: "1 < length [''parse_image_header.py'', ''empty.bin'']" by simp
  have b: "single_file ''empty.bin'' [] ([''parse_image_header.py'', ''empty.bin''] ! 1) = Inr []"
    by (simp add: single_file_def)
  have c: "length (take 32 ([]::bytes)) < 8" by simp
  show ?thesis
    using a b c
      C2_too_small [of "[''parse_image_header.py'', ''empty.bin'']" "single_file ''empty.bin'' []" "[]"]
    by (cases "parse_image_header [''parse_image_header.py'', ''empty.bin''] (single_file ''empty.bin'' [])")
      simp
qed

text \<open>
  C5 asks for a clean error and a dedicated exit status when the path cannot be opened.
  The header decoder does not do that: on a path that does not exist, \<^verbatim>\<open>open\<close> raises
  and nothing in the script catches the exception, so the run ends with the traceback
  of an uncaught \<^verbatim>\<open>FileNotFoundError\<close>, having printed nothing.
\<close>

theorem C5_missing_file_uncaught:
  "parse_image_header [''parse_image_header.py'', ''missing.bin''] (single_file ''fw.bin'' [])
     = \<lparr>stdout = [], outcome = Uncaught FileNotFoundError\<rparr>"
  by (simp add: parse_image_header_def single_file_def)

text \<open>
  The other script of the repository does handle the missing file: it prints one line
  and exits with status 1, with no traceback.
\<close>

lemma scan_firmware_missing_file:
  assumes "fs path = Inl FileNotFoundError"
  shows "scan_firmware fs = \<lparr>stdout = [''MISSING '' @ path], outcome = Exited 1\<rparr>"
  using assms by (simp add: scan_firmware_def py_print_def)

lemma scan_firmware_on_marker:
  "scan_firmware (single_file path (bytes_lit ''flash 4MB, 8192k''))
     = \<lparr>stdout = [''8192 0xb'', ''4MB 0x6'', ''8192k 0xb''], outcome = Exited 0\<rparr>"
  by code_simp

text \<open>
  C7: the run is a function of the arguments and of what \<^verbatim>\<open>open\<close> gives for the path
  and of nothing else. Two runs with the same arguments, in file systems where the path
  opens to the same content (or fails the same way), print the same characters and end
  with the same status.
\<close>

theorem C7_deterministic:
  assumes "fsa (argv ! 1) = fsb (argv ! 1)"
  shows "parse_image_header argv fsa = parse_image_header argv fsb
       \<and> render (stdout (parse_image_header argv fsa)) = render (stdout (parse_image_header argv fsb))
       \<and> exit_status (outcome (parse_image_header argv fsa))
           = exit_status (outcome (parse_image_header argv fsb))"
proof -
  have "parse_image_header argv fsa = parse_image_header argv fsb"
    unfolding parse_image_header_def Let_def assms by (rule refl)
  then show ?thesis by simp
qed

theorem C7_witness:
  "single_file ''fw.bin'' [0xE9, 3, 2, 0, 0, 0, 0, 0] ([''parse_image_header.py'', ''fw.bin''] ! 1)
     = ((single_file ''fw.bin'' [0xE9, 3, 2, 0, 0, 0, 0, 0])(''other.bin'' := Inr [0x34]))
         ([''parse_image_header.py'', ''fw.bin''] ! 1)
   \<and> single_file ''fw.bin'' [0xE9, 3, 2, 0, 0, 0, 0, 0]
       \<noteq> (single_file ''fw.bin'' [0xE9, 3, 2, 0, 0, 0, 0, 0])(''other.bin'' := Inr [0x34])
   \<and> parse_image_header [''parse_image_header.py'', ''fw.bin'']
        (single_file ''fw.bin'' [0xE9, 3, 2, 0, 0, 0, 0, 0])
     = parse_image_header [''parse_image_header.py'', ''fw.bin'']
        ((single_file ''fw.bin'' [0xE9, 3, 2, 0, 0, 0, 0, 0])(''other.bin'' := Inr [0x34]))"
proof -
  have a: "single_file ''fw.bin'' [0xE9, 3, 2, 0, 0, 0, 0, 0] ([''parse_image_header.py'', ''fw.bin''] ! 1)
     = ((single_file ''fw.bin'' [0xE9, 3, 2, 0, 0, 0, 0, 0])(''other.bin'' := Inr [0x34]))
         ([''parse_image_header.py'', ''fw.bin''] ! 1)"
    by simp
  have "single_file ''fw.bin'' [0xE9, 3, 2, 0, 0, 0, 0, 0] ''other.bin''
     \<noteq> ((single_file ''fw.bin'' [0xE9, 3, 2, 0, 0, 0, 0, 0])(''other.bin'' := Inr [0x34])) ''other.bin''"
    by (simp add: single_file_def)
  then have b: "single_file ''fw.bin'' [0xE9, 3, 2, 0, 0, 0, 0, 0]
       \<noteq> (single_file ''fw.bin'' [0xE9, 3, 2, 0, 0, 0, 0, 0])(''other.bin'' := Inr [0x34])"
    by metis
  show ?thesis
    using a b
      C7_deterministic [where argv = "[''parse_image_header.py'', ''fw.bin'']"
        and fsa = "single_file ''fw.bin'' [0xE9, 3, 2, 0, 0, 0, 0, 0]"
        and fsb = "(single_file ''fw.bin'' [0xE9, 3, 2, 0, 0, 0, 0, 0])(''other.bin'' := Inr [0x34])"]
    by blast
qed

section \<open>The marker scan\<close>

lemma bytes_in_iff: "bytes_in s content \<longleftrightarrow> (\<exists>ps ss. content = ps @ s @ ss)"
proof (induction content)
  case Nil
  then show ?case by auto
next
  case (Cons c content)
  have "(\<exists>ps ss. c # content = ps @ s @ ss) \<longleftrightarrow> sublist s (c # content)"
    by (simp add: sublist_def)
  also have "\<dots> \<longleftrightarrow> prefix s (c # content) \<or> sublist s content"
    by (rule sublist_Cons_right)
  also have "\<dots> \<longleftrightarrow> prefix s (c # content) \<or> bytes_in s content"
    using Cons.IH by (simp add: sublist_def)
  finally show ?case by simp
qed


lemma marker_scan_filter:
  "marker_scan ms content = map (\<lambda>s. ''Found ascii marker: '' @ decode_ignore s) (filter (\<lambda>s. bytes_in s content) ms)"
  by (induction ms) (simp_all add: py_print_def)

lemma markers_text: "map decode_ignore markers = [''4096'', ''8192'', ''8MB'', ''4MB'', ''8192k'', ''4096k'']"
  by code_simp


lemma markers_distinct: "distinct (map decode_ignore markers)"
  by (simp add: markers_text)

lemma header_report_length: "length (header_report d) = 8"
  by (simp add: header_report_def Let_def)

lemma header_report_no_marker: "filter (prefix ''Found ascii marker:'') (header_report d) = []"
  by (simp add: header_report_def Let_def py_print_def)


lemma markers_distinct': "distinct markers"
  using markers_distinct by (rule distinct_map [THEN iffD1, THEN conjunct1])

lemma markers_inj: "inj_on decode_ignore (set markers)"
  using markers_distinct by (rule distinct_map [THEN iffD1, THEN conjunct2])

lemma count_list_map_filter:
  assumes "distinct xs" and "inj_on f (set xs)" and "x \<in> set xs"
  shows "count_list (map f (filter Q xs)) (f x) = (if Q x then 1 else 0)"
  using assms
proof (induction xs)
  case Nil
  then show ?case by simp
next
  case (Cons y ys)
  show ?case
  proof (cases "x = y")
    case True
    with Cons.prems have "f x \<notin> f ` set ys" by (auto simp add: inj_on_def)
    then have "count_list (map f (filter Q ys)) (f x) = 0"
      by (auto simp add: count_list_0_iff)
    with True show ?thesis by simp
  next
    case False
    with Cons.prems have "x \<in> set ys" and "f y \<noteq> f x" by (auto simp add: inj_on_def)
    with Cons show ?thesis by simp
  qed
qed

lemma marker_scan_found:
  "filter (prefix ''Found ascii marker:'') (marker_scan ms content) = marker_scan ms content"
  by (simp add: marker_scan_filter filter_map o_def)

lemma report_marker_lines:
  assumes "1 < length argv" and "fs (argv ! 1) = Inr img" and "8 \<le> length img"
  shows "filter (prefix ''Found ascii marker:'') (stdout (parse_image_header argv fs))
           = map (\<lambda>s. ''Found ascii marker: '' @ decode_ignore s)
               (filter (\<lambda>s. \<exists>ps ss. img = ps @ s @ ss) markers)"
proof -
  have "filter (prefix ''Found ascii marker:'') (stdout (parse_image_header argv fs))
          = marker_scan markers img"
    using run_report [of argv fs img] assms
    by (simp add: header_report_no_marker marker_scan_found)
  then show ?thesis by (simp add: marker_scan_filter bytes_in_iff)
qed

lemma count_list_filter:
  "P l \<Longrightarrow> count_list (filter P xs) l = count_list xs l"
  by (induction xs) simp_all

lemma report_marker_count:
  assumes "1 < length argv" and "fs (argv ! 1) = Inr img" and "8 \<le> length img"
    and "s \<in> set markers"
  shows "count_list (stdout (parse_image_header argv fs))
           (''Found ascii marker: '' @ decode_ignore s)
         = (if \<exists>ps ss. img = ps @ s @ ss then 1 else 0)"
proof -
  let ?l = "''Found ascii marker: '' @ decode_ignore s"
  let ?f = "\<lambda>s. ''Found ascii marker: '' @ decode_ignore s"
  have inj: "inj_on ?f (set markers)"
    using markers_inj by (simp add: inj_on_def)
  have "prefix ''Found ascii marker:'' ?l" by simp
  then have "count_list (stdout (parse_image_header argv fs)) ?l
      = count_list (filter (prefix ''Found ascii marker:'') (stdout (parse_image_header argv fs))) ?l"
    by (simp only: count_list_filter)
  also have "\<dots> = count_list (map ?f (filter (\<lambda>s. \<exists>ps ss. img = ps @ s @ ss) markers)) (?f s)"
    using report_marker_lines [of argv fs img] assms(1-3) by simp
  also have "\<dots> = (if \<exists>ps ss. img = ps @ s @ ss then 1 else 0)"
    using markers_distinct' inj assms(4) by (rule count_list_map_filter)
  finally show ?thesis .
qed

text \<open>
  C3 (amended): on a file of at least 8 bytes, each of the six markers is reported, by
  one "Found ascii marker" line, exactly when its bytes occur somewhere in the file, and
  never more than once; the marker lines appear in the order of the list
  4096, 8192, 8MB, 4MB, 8192k, 4096k.
\<close>

theorem C3_markers_reported:
  assumes "1 < length argv" and "fs (argv ! 1) = Inr img" and "8 \<le> length img"
  shows "(\<forall>s \<in> set markers.
            count_list (stdout (parse_image_header argv fs))
              (''Found ascii marker: '' @ decode_ignore s)
            = (if \<exists>ps ss. img = ps @ s @ ss then 1 else 0))
       \<and> filter (prefix ''Found ascii marker:'') (stdout (parse_image_header argv fs))
           = map (\<lambda>s. ''Found ascii marker: '' @ decode_ignore s)
               (filter (\<lambda>s. \<exists>ps ss. img = ps @ s @ ss) markers)
       \<and> map decode_ignore markers = [''4096'', ''8192'', ''8MB'', ''4MB'', ''8192k'', ''4096k'']"
  using report_marker_count [of argv fs img] report_marker_lines [of argv fs img] assms markers_text
  by blast



text \<open>
  C3 as stated, for every file, fails: a file that is exactly the three bytes "4MB"
  contains a marker, and the run stops at "File too small" before the scan.
\<close>

theorem C3_counterexample:
  "bytes_lit ''4MB'' \<in> set markers
   \<and> sublist (bytes_lit ''4MB'') (bytes_lit ''4MB'')
   \<and> stdout (parse_image_header [''parse_image_header.py'', ''tiny.bin'']
        (single_file ''tiny.bin'' (bytes_lit ''4MB''))) = [''File too small'']
   \<and> ''Found ascii marker: 4MB''
       \<notin> set (stdout (parse_image_header [''parse_image_header.py'', ''tiny.bin'']
                 (single_file ''tiny.bin'' (bytes_lit ''4MB''))))"
proof -
  have "stdout (parse_image_header [''parse_image_header.py'', ''tiny.bin'']
        (single_file ''tiny.bin'' (bytes_lit ''4MB''))) = [''File too small'']"
    by (simp add: parse_image_header_def single_file_def bytes_lit_def py_print_def)
  moreover have "bytes_lit ''4MB'' \<in> set markers"
    by (simp add: markers_def)
  ultimately show ?thesis by simp
qed

theorem C3_witness:
  "1 < length [''parse_image_header.py'', ''fw.bin'']
   \<and> single_file ''fw.bin'' ([0xE9, 3, 0x6F, 0, 0, 0, 0, 0] @ bytes_lit ''xx4MB 8192k'')
        ([''parse_image_header.py'', ''fw.bin''] ! 1)
       = Inr ([0xE9, 3, 0x6F, 0, 0, 0, 0, 0] @ bytes_lit ''xx4MB 8192k'')
   \<and> 8 \<le> length ([0xE9, 3, 0x6F, 0, 0, 0, 0, 0] @ bytes_lit ''xx4MB 8192k'')
   \<and> bytes_lit ''4MB'' \<in> set markers
   \<and> sublist (bytes_lit ''4MB'') ([0xE9, 3, 0x6F, 0, 0, 0, 0, 0] @ bytes_lit ''xx4MB 8192k'')
   \<and> count_list (stdout (parse_image_header [''parse_image_header.py'', ''fw.bin'']
          (single_file ''fw.bin'' ([0xE9, 3, 0x6F, 0, 0, 0, 0, 0] @ bytes_lit ''xx4MB 8192k''))))
        ''Found ascii marker: 4MB'' = 1
   \<and> bytes_lit ''8MB'' \<in> set markers
   \<and> \<not> sublist (bytes_lit ''8MB'') ([0xE9, 3, 0x6F, 0, 0, 0, 0, 0] @ bytes_lit ''xx4MB 8192k'')
   \<and> count_list (stdout (parse_image_header [''parse_image_header.py'', ''fw.bin'']
          (single_file ''fw.bin'' ([0xE9, 3, 0x6F, 0, 0, 0, 0, 0] @ bytes_lit ''xx4MB 8192k''))))
        ''Found ascii marker: 8MB'' = 0"
proof -
  let ?argv = "[''parse_image_header.py'', ''fw.bin'']"
  let ?img = "[0xE9, 3, 0x6F, 0, 0, 0, 0, 0] @ bytes_lit ''xx4MB 8192k''"
  have a: "1 < length ?argv" by simp
  have b: "single_file ''fw.bin'' ?img (?argv ! 1) = Inr ?img" by (simp add: single_file_def)
  have c: "8 \<le> length ?img" by simp
  have m4: "bytes_lit ''4MB'' \<in> set markers" and m8: "bytes_lit ''8MB'' \<in> set markers"
    by (simp_all add: markers_def)
  have "bytes_in (bytes_lit ''4MB'') ?img" by code_simp
  then have s4: "\<exists>ps ss. ?img = ps @ bytes_lit ''4MB'' @ ss" unfolding bytes_in_iff .
  have "\<not> bytes_in (bytes_lit ''8MB'') ?img" by code_simp
  then have s8: "\<not> (\<exists>ps ss. ?img = ps @ bytes_lit ''8MB'' @ ss)" unfolding bytes_in_iff .
  have d4: "decode_ignore (bytes_lit ''4MB'') = ''4MB''"
    and d8: "decode_ignore (bytes_lit ''8MB'') = ''8MB''" by code_simp+
  have "\<forall>s \<in> set markers.
            count_list (stdout (parse_image_header ?argv (single_file ''fw.bin'' ?img)))
              (''Found ascii marker: '' @ decode_ignore s)
            = (if \<exists>ps ss. ?img = ps @ s @ ss then 1 else 0)"
    using a b c C3_markers_reported [of ?argv "single_file ''fw.bin'' ?img" ?img] by blast
  note cnt = this [rule_format]
  from cnt [OF m4] s4 d4
  have c4: "count_list (stdout (parse_image_header ?argv (single_file ''fw.bin'' ?img)))
              ''Found ascii marker: 4MB'' = 1"
    by simp
  from cnt [OF m8] s8 d8
  have c8: "count_list (stdout (parse_image_header ?argv (single_file ''fw.bin'' ?img)))
              ''Found ascii marker: 8MB'' = 0"
    by simp
  from s4 s8 have "sublist (bytes_lit ''4MB'') ?img" and "\<not> sublist (bytes_lit ''8MB'') ?img"
    unfolding sublist_def by blast+
  with a b c m4 m8 c4 c8 show ?thesis by blast
qed

lemma run_stdout_cases:
  obtains "stdout (parse_image_header argv fs) = []"
  | "stdout (parse_image_header argv fs) = [''File too small'']"
  | img where "1 < length argv" and "fs (argv ! 1) = Inr img" and "8 \<le> length img"
proof (cases "length argv \<le> 1")
  case True
  then have "stdout (parse_image_header argv fs) = []" by (simp add: parse_image_header_def)
  then show ?thesis by (rule that(1))
next
  case False
  then have n: "1 < length argv" by simp
  show ?thesis
  proof (cases "fs (argv ! 1)")
    case (Inl e)
    with n have "stdout (parse_image_header argv fs) = []" by (simp add: parse_image_header_def)
    then show ?thesis by (rule that(1))
  next
    case (Inr img)
    show ?thesis
    proof (cases "8 \<le> length img")
      case True
      with n Inr show ?thesis by (rule that(3))
    next
      case False
      with n Inr have "stdout (parse_image_header argv fs) = [''File too small'']"
        by (simp add: parse_image_header_def py_print_def)
      then show ?thesis by (rule that(2))
    qed
  qed
qed

lemma report_marker_in_iff:
  assumes "1 < length argv" and "fs (argv ! 1) = Inr img" and "8 \<le> length img"
    and "s \<in> set markers"
  shows "''Found ascii marker: '' @ decode_ignore s \<in> set (stdout (parse_image_header argv fs))
         \<longleftrightarrow> (\<exists>ps ss. img = ps @ s @ ss)"
  using assms report_marker_count [of argv fs img s]
    count_list_0_iff [of "stdout (parse_image_header argv fs)"
      "''Found ascii marker: '' @ decode_ignore s"]
  by (auto split: if_splits)

lemma longer_marker_reported:
  assumes "bytes_lit (m @ k) \<in> set markers" and "bytes_lit m \<in> set markers"
    and "decode_ignore (bytes_lit (m @ k)) = m @ k" and "decode_ignore (bytes_lit m) = m"
    and "''Found ascii marker: '' @ m @ k \<in> set (stdout (parse_image_header argv fs))"
  shows "''Found ascii marker: '' @ m \<in> set (stdout (parse_image_header argv fs))"
proof (cases argv fs rule: run_stdout_cases)
  case 1
  with assms(5) show ?thesis by simp
next
  case 2
  with assms(5) show ?thesis by simp
next
  case (3 img)
  from assms(1,3,5) 3 report_marker_in_iff [of argv fs img "bytes_lit (m @ k)"]
  obtain ps ss where "img = ps @ bytes_lit (m @ k) @ ss" by auto
  then have "img = ps @ bytes_lit m @ (bytes_lit k @ ss)" by (simp add: bytes_lit_def)
  then have "\<exists>ps ss. img = ps @ bytes_lit m @ ss" by blast
  with 3 assms(2,4) report_marker_in_iff [of argv fs img "bytes_lit m"] show ?thesis by simp
qed

text \<open>
  C10: in every run, if the marker 8192k is reported then so is 8192, and if 4096k is
  reported then so is 4096: an occurrence of the longer literal holds one of the shorter.
\<close>

theorem C10_marker_subsumption:
  "(''Found ascii marker: 8192k'' \<in> set (stdout (parse_image_header argv fs))
      \<longrightarrow> ''Found ascii marker: 8192'' \<in> set (stdout (parse_image_header argv fs)))
   \<and> (''Found ascii marker: 4096k'' \<in> set (stdout (parse_image_header argv fs))
      \<longrightarrow> ''Found ascii marker: 4096'' \<in> set (stdout (parse_image_header argv fs)))"
proof -
  have d: "decode_ignore (bytes_lit (''8192'' @ ''k'')) = ''8192'' @ ''k''"
    "decode_ignore (bytes_lit ''8192'') = ''8192''"
    "decode_ignore (bytes_lit (''4096'' @ ''k'')) = ''4096'' @ ''k''"
    "decode_ignore (bytes_lit ''4096'') = ''4096''"
    by code_simp+
  have m: "bytes_lit (''8192'' @ ''k'') \<in> set markers" "bytes_lit ''8192'' \<in> set markers"
    "bytes_lit (''4096'' @ ''k'') \<in> set markers" "bytes_lit ''4096'' \<in> set markers"
    by (simp_all add: markers_def)
  show ?thesis
    using longer_marker_reported [OF m(1) m(2) d(1) d(2), of argv fs]
      longer_marker_reported [OF m(3) m(4) d(3) d(4), of argv fs]
    by simp
qed

theorem C10_witness:
  "''Found ascii marker: 8192k''
     \<in> set (stdout (parse_image_header [''parse_image_header.py'', ''fw.bin'']
               (single_file ''fw.bin'' (bytes_lit ''flash=8192k''))))
   \<and> ''Found ascii marker: 8192''
     \<in> set (stdout (parse_image_header [''parse_image_header.py'', ''fw.bin'']
               (single_file ''fw.bin'' (bytes_lit ''flash=8192k''))))"
proof -
  have "''Found ascii marker: 8192k''
     \<in> set (stdout (parse_image_header [''parse_image_header.py'', ''fw.bin'']
               (single_file ''fw.bin'' (bytes_lit ''flash=8192k''))))"
    by code_simp
  then show ?thesis
    using C10_marker_subsumption [of "[''parse_image_header.py'', ''fw.bin'']"
        "single_file ''fw.bin'' (bytes_lit ''flash=8192k'')"]
    by blast
qed

section \<open>The report of a run on a file of at least 8 bytes\<close>

lemma window_nth:
  assumes "8 \<le> length img" and "i < 8"
  shows "map uint (take 32 img) ! i = uint (img ! i)"
proof -
  from assms have "i < length (take 32 img)" by simp
  then have "map uint (take 32 img) ! i = uint (take 32 img ! i)" by (rule nth_map)
  also from assms have "take 32 img ! i = img ! i" by simp
  finally show ?thesis .
qed

lemma header_report_nth:
  assumes "8 \<le> length img"
  shows "header_report (take 32 img) ! 1 = ''Magic: 0x'' @ format_int 16 2 (uint (img ! 0))"
    and "header_report (take 32 img) ! 2 = ''Segment count: '' @ str_int (uint (img ! 1))"
    and "header_report (take 32 img) ! 3
           = ''Raw spi byte: 0x'' @ format_int 16 2 (uint (img ! 2))
               @ '' ('' @ format_int 2 8 (uint (img ! 2)) @ '')''"
    and "header_report (take 32 img) ! 4 = ''Decoded candidates:''"
    and "header_report (take 32 img) ! 5
           = '' - lower 3 bits -> '' @ str_int (low3 (uint (img ! 2))) @ '' ''
               @ dict_get size_map (low3 (uint (img ! 2))) ''unknown''"
    and "header_report (take 32 img) ! 6
           = '' - lower 4 bits -> '' @ str_int (low4 (uint (img ! 2))) @ '' ''
               @ dict_get size_map (low4 (uint (img ! 2))) ''unknown''"
    and "header_report (take 32 img) ! 7
           = '' - upper 3 bits -> '' @ str_int (high3 (uint (img ! 2))) @ '' ''
               @ dict_get size_map (high3 (uint (img ! 2))) ''unknown''"
  using assms window_nth [of img 0] window_nth [of img 1] window_nth [of img 2]
  by (simp_all add: header_report_def Let_def py_print_def)

lemma report_stdout_nth:
  assumes "1 < length argv" and "fs (argv ! 1) = Inr img" and "8 \<le> length img" and "i < 8"
  shows "stdout (parse_image_header argv fs) ! i = header_report (take 32 img) ! i"
  using assms run_report [of argv fs img] by (simp add: nth_append header_report_length)

text \<open>
  C6: every run that reaches the report (the file opens and has at least 8 bytes) ends
  with status 0 after the line "Done". Each candidate line carries the label of the size
  table or, when the table has no entry for the value, the word "unknown": a missing
  entry stops nothing.
\<close>

theorem C6_unknown_is_not_an_error:
  assumes "1 < length argv" and "fs (argv ! 1) = Inr img" and "8 \<le> length img"
  shows "outcome (parse_image_header argv fs) = Exited 0
       \<and> exit_status (outcome (parse_image_header argv fs)) = 0
       \<and> last (stdout (parse_image_header argv fs)) = CHR 0x0A # ''Done''
       \<and> stdout (parse_image_header argv fs) ! 5
           = '' - lower 3 bits -> '' @ str_int (low3 (uint (img ! 2))) @ '' ''
               @ (case size_map (low3 (uint (img ! 2))) of None \<Rightarrow> ''unknown'' | Some l \<Rightarrow> l)
       \<and> stdout (parse_image_header argv fs) ! 6
           = '' - lower 4 bits -> '' @ str_int (low4 (uint (img ! 2))) @ '' ''
               @ (case size_map (low4 (uint (img ! 2))) of None \<Rightarrow> ''unknown'' | Some l \<Rightarrow> l)
       \<and> stdout (parse_image_header argv fs) ! 7
           = '' - upper 3 bits -> '' @ str_int (high3 (uint (img ! 2))) @ '' ''
               @ (case size_map (high3 (uint (img ! 2))) of None \<Rightarrow> ''unknown'' | Some l \<Rightarrow> l)"
proof -
  have "outcome (parse_image_header argv fs) = Exited 0"
    and "last (stdout (parse_image_header argv fs)) = CHR 0x0A # ''Done''"
    using assms run_report [of argv fs img] by simp_all
  moreover have "stdout (parse_image_header argv fs) ! 5
           = '' - lower 3 bits -> '' @ str_int (low3 (uint (img ! 2))) @ '' ''
               @ (case size_map (low3 (uint (img ! 2))) of None \<Rightarrow> ''unknown'' | Some l \<Rightarrow> l)"
    using assms report_stdout_nth [of argv fs img 5] header_report_nth(5) [of img]
    by (simp add: dict_get_def)
  moreover have "stdout (parse_image_header argv fs) ! 6
           = '' - lower 4 bits -> '' @ str_int (low4 (uint (img ! 2))) @ '' ''
               @ (case size_map (low4 (uint (img ! 2))) of None \<Rightarrow> ''unknown'' | Some l \<Rightarrow> l)"
    using assms report_stdout_nth [of argv fs img 6] header_report_nth(6) [of img]
    by (simp add: dict_get_def)
  moreover have "stdout (parse_image_header argv fs) ! 7
           = '' - upper 3 bits -> '' @ str_int (high3 (uint (img ! 2))) @ '' ''
               @ (case size_map (high3 (uint (img ! 2))) of None \<Rightarrow> ''unknown'' | Some l \<Rightarrow> l)"
    using assms report_stdout_nth [of argv fs img 7] header_report_nth(7) [of img]
    by (simp add: dict_get_def)
  ultimately show ?thesis by simp
qed

theorem C6_witness:
  "1 < length [''parse_image_header.py'', ''fw.bin'']
   \<and> single_file ''fw.bin'' [0xE9, 3, 0x6F, 0, 0, 0, 0, 0] ([''parse_image_header.py'', ''fw.bin''] ! 1)
       = Inr [0xE9, 3, 0x6F, 0, 0, 0, 0, 0]
   \<and> 8 \<le> length ([0xE9, 3, 0x6F, 0, 0, 0, 0, 0] :: bytes)
   \<and> size_map (low3 0x6F) = None \<and> size_map (low4 0x6F) = None \<and> size_map (high3 0x6F) = None
   \<and> stdout (parse_image_header [''parse_image_header.py'', ''fw.bin'']
         (single_file ''fw.bin'' [0xE9, 3, 0x6F, 0, 0, 0, 0, 0])) ! 5 = '' - lower 3 bits -> 7 unknown''
   \<and> stdout (parse_image_header [''parse_image_header.py'', ''fw.bin'']
         (single_file ''fw.bin'' [0xE9, 3, 0x6F, 0, 0, 0, 0, 0])) ! 6 = '' - lower 4 bits -> 15 unknown''
   \<and> stdout (parse_image_header [''parse_image_header.py'', ''fw.bin'']
         (single_file ''fw.bin'' [0xE9, 3, 0x6F, 0, 0, 0, 0, 0])) ! 7 = '' - upper 3 bits -> 6 unknown''
   \<and> last (stdout (parse_image_header [''parse_image_header.py'', ''fw.bin'']
         (single_file ''fw.bin'' [0xE9, 3, 0x6F, 0, 0, 0, 0, 0]))) = CHR 0x0A # ''Done''
   \<and> outcome (parse_image_header [''parse_image_header.py'', ''fw.bin'']
         (single_file ''fw.bin'' [0xE9, 3, 0x6F, 0, 0, 0, 0, 0])) = Exited 0"
proof -
  let ?argv = "[''parse_image_header.py'', ''fw.bin'']"
  let ?img = "[0xE9, 3, 0x6F, 0, 0, 0, 0, 0] :: bytes"
  have a: "1 < length ?argv" by simp
  have b: "single_file ''fw.bin'' ?img (?argv ! 1) = Inr ?img" by (simp add: single_file_def)
  have c: "8 \<le> length ?img" by simp
  have spi: "uint (?img ! 2) = 0x6F" by simp
  have v: "low3 0x6F = 7" "low4 0x6F = 15" "high3 0x6F = 6"
    by (simp_all add: low3_def low4_def high3_def)
  have n: "size_map 7 = None" "size_map 15 = None" "size_map 6 = None"
    by (simp_all add: size_map_def)
  have t: "str_int 7 = ''7''" "str_int 15 = ''15''" "str_int 6 = ''6''"
    by code_simp+
  show ?thesis
    using a b c C6_unknown_is_not_an_error [of ?argv "single_file ''fw.bin'' ?img" ?img]
    by (simp only: spi v n t) simp
qed

lemma report_filter:
  assumes "1 < length argv" and "fs (argv ! 1) = Inr img" and "8 \<le> length img"
    and "\<And>s. \<not> P (''Found ascii marker: '' @ s)" and "\<not> P (CHR 0x0A # ''Done'')"
  shows "filter P (stdout (parse_image_header argv fs)) = filter P (header_report (take 32 img))"
  using assms run_report [of argv fs img]
  by (simp add: marker_scan_filter filter_map o_def)


lemma header_report_lines:
  assumes "8 \<le> length img"
  shows "filter (prefix ''Magic: '') (header_report (take 32 img))
           = [''Magic: 0x'' @ format_int 16 2 (uint (img ! 0))]"
    and "filter (prefix ''Segment count: '') (header_report (take 32 img))
           = [''Segment count: '' @ str_int (uint (img ! 1))]"
    and "filter (prefix ''Raw spi byte: '') (header_report (take 32 img))
           = [''Raw spi byte: 0x'' @ format_int 16 2 (uint (img ! 2))
               @ '' ('' @ format_int 2 8 (uint (img ! 2)) @ '')'']"
    and "filter (prefix '' - '') (header_report (take 32 img))
           = ['' - lower 3 bits -> '' @ str_int (low3 (uint (img ! 2))) @ '' ''
                @ dict_get size_map (low3 (uint (img ! 2))) ''unknown'',
              '' - lower 4 bits -> '' @ str_int (low4 (uint (img ! 2))) @ '' ''
                @ dict_get size_map (low4 (uint (img ! 2))) ''unknown'',
              '' - upper 3 bits -> '' @ str_int (high3 (uint (img ! 2))) @ '' ''
                @ dict_get size_map (high3 (uint (img ! 2))) ''unknown'']"
  using assms window_nth [of img 0] window_nth [of img 1] window_nth [of img 2]
  by (simp_all add: header_report_def Let_def py_print_def)

text \<open>
  C4: on every file of at least 8 bytes the output has exactly one "Magic" line, for the
  byte at offset 0, exactly one "Segment count" line, for the byte at offset 1, exactly
  one "Raw spi byte" line, for the byte at offset 2, and exactly three candidate lines,
  whatever the bytes are. When the first three bytes are E9 03 02, these lines read
  0xe9, 3, 0x02 (00000010), 2 4MB, 2 4MB and 0 1MB.
\<close>

theorem C4_fields_and_candidates:
  assumes "1 < length argv" and "fs (argv ! 1) = Inr img" and "8 \<le> length img"
  shows "filter (prefix ''Magic: '') (stdout (parse_image_header argv fs))
           = [''Magic: 0x'' @ format_int 16 2 (uint (img ! 0))]
       \<and> filter (prefix ''Segment count: '') (stdout (parse_image_header argv fs))
           = [''Segment count: '' @ str_int (uint (img ! 1))]
       \<and> filter (prefix ''Raw spi byte: '') (stdout (parse_image_header argv fs))
           = [''Raw spi byte: 0x'' @ format_int 16 2 (uint (img ! 2))
               @ '' ('' @ format_int 2 8 (uint (img ! 2)) @ '')'']
       \<and> filter (prefix '' - '') (stdout (parse_image_header argv fs))
           = ['' - lower 3 bits -> '' @ str_int (low3 (uint (img ! 2))) @ '' ''
                @ dict_get size_map (low3 (uint (img ! 2))) ''unknown'',
              '' - lower 4 bits -> '' @ str_int (low4 (uint (img ! 2))) @ '' ''
                @ dict_get size_map (low4 (uint (img ! 2))) ''unknown'',
              '' - upper 3 bits -> '' @ str_int (high3 (uint (img ! 2))) @ '' ''
                @ dict_get size_map (high3 (uint (img ! 2))) ''unknown'']
       \<and> (img ! 0 = 0xE9 \<and> img ! 1 = 0x03 \<and> img ! 2 = 0x02 \<longrightarrow>
            filter (prefix ''Magic: '') (stdout (parse_image_header argv fs)) = [''Magic: 0xe9'']
          \<and> filter (prefix ''Segment count: '') (stdout (parse_image_header argv fs))
              = [''Segment count: 3'']
          \<and> filter (prefix ''Raw spi byte: '') (stdout (parse_image_header argv fs))
              = [''Raw spi byte: 0x02 (00000010)'']
          \<and> filter (prefix '' - '') (stdout (parse_image_header argv fs))
              = ['' - lower 3 bits -> 2 4MB'', '' - lower 4 bits -> 2 4MB'',
                 '' - upper 3 bits -> 0 1MB''])"
proof -
  have m: "filter (prefix ''Magic: '') (stdout (parse_image_header argv fs))
           = [''Magic: 0x'' @ format_int 16 2 (uint (img ! 0))]"
    using assms report_filter [of argv fs img "prefix ''Magic: ''"] header_report_lines(1) [of img]
    by simp
  have s: "filter (prefix ''Segment count: '') (stdout (parse_image_header argv fs))
           = [''Segment count: '' @ str_int (uint (img ! 1))]"
    using assms report_filter [of argv fs img "prefix ''Segment count: ''"]
      header_report_lines(2) [of img]
    by simp
  have r: "filter (prefix ''Raw spi byte: '') (stdout (parse_image_header argv fs))
           = [''Raw spi byte: 0x'' @ format_int 16 2 (uint (img ! 2))
               @ '' ('' @ format_int 2 8 (uint (img ! 2)) @ '')'']"
    using assms report_filter [of argv fs img "prefix ''Raw spi byte: ''"]
      header_report_lines(3) [of img]
    by simp
  have c: "filter (prefix '' - '') (stdout (parse_image_header argv fs))
           = ['' - lower 3 bits -> '' @ str_int (low3 (uint (img ! 2))) @ '' ''
                @ dict_get size_map (low3 (uint (img ! 2))) ''unknown'',
              '' - lower 4 bits -> '' @ str_int (low4 (uint (img ! 2))) @ '' ''
                @ dict_get size_map (low4 (uint (img ! 2))) ''unknown'',
              '' - upper 3 bits -> '' @ str_int (high3 (uint (img ! 2))) @ '' ''
                @ dict_get size_map (high3 (uint (img ! 2))) ''unknown'']"
    using assms report_filter [of argv fs img "prefix '' - ''"] header_report_lines(4) [of img]
    by simp
  have f: "format_int 16 2 0xE9 = ''e9''" "str_int 3 = ''3''" "format_int 16 2 2 = ''02''"
    "format_int 2 8 2 = ''00000010''" "str_int 2 = ''2''" "str_int 0 = ''0''"
    by code_simp+
  have v: "low3 2 = 2" "low4 2 = 2" "high3 2 = 0"
    by (simp_all add: low3_def low4_def high3_def)
  have e: "filter (prefix ''Magic: '') (stdout (parse_image_header argv fs)) = [''Magic: 0xe9'']
          \<and> filter (prefix ''Segment count: '') (stdout (parse_image_header argv fs))
              = [''Segment count: 3'']
          \<and> filter (prefix ''Raw spi byte: '') (stdout (parse_image_header argv fs))
              = [''Raw spi byte: 0x02 (00000010)'']
          \<and> filter (prefix '' - '') (stdout (parse_image_header argv fs))
              = ['' - lower 3 bits -> 2 4MB'', '' - lower 4 bits -> 2 4MB'',
                 '' - upper 3 bits -> 0 1MB'']"
    if "img ! 0 = 0xE9 \<and> img ! 1 = 0x03 \<and> img ! 2 = 0x02"
    using that by (simp add: m s r c f v size_map_get)
  from m s r c e show ?thesis by blast
qed

theorem C4_witness:
  "1 < length [''parse_image_header.py'', ''fw.bin'']
   \<and> single_file ''fw.bin'' [0xE9, 0x03, 0x02, 0x20, 0, 0, 0, 0x40]
        ([''parse_image_header.py'', ''fw.bin''] ! 1) = Inr [0xE9, 0x03, 0x02, 0x20, 0, 0, 0, 0x40]
   \<and> 8 \<le> length ([0xE9, 0x03, 0x02, 0x20, 0, 0, 0, 0x40] :: bytes)
   \<and> ([0xE9, 0x03, 0x02, 0x20, 0, 0, 0, 0x40] :: bytes) ! 0 = 0xE9
   \<and> ([0xE9, 0x03, 0x02, 0x20, 0, 0, 0, 0x40] :: bytes) ! 1 = 0x03
   \<and> ([0xE9, 0x03, 0x02, 0x20, 0, 0, 0, 0x40] :: bytes) ! 2 = 0x02
   \<and> filter (prefix ''Magic: '') (stdout (parse_image_header [''parse_image_header.py'', ''fw.bin'']
         (single_file ''fw.bin'' [0xE9, 0x03, 0x02, 0x20, 0, 0, 0, 0x40]))) = [''Magic: 0xe9'']
   \<and> filter (prefix '' - '') (stdout (parse_image_header [''parse_image_header.py'', ''fw.bin'']
         (single_file ''fw.bin'' [0xE9, 0x03, 0x02, 0x20, 0, 0, 0, 0x40])))
       = ['' - lower 3 bits -> 2 4MB'', '' - lower 4 bits -> 2 4MB'', '' - upper 3 bits -> 0 1MB'']"
proof -
  let ?argv = "[''parse_image_header.py'', ''fw.bin'']"
  let ?img = "[0xE9, 0x03, 0x02, 0x20, 0, 0, 0, 0x40] :: bytes"
  have a: "1 < length ?argv" by simp
  have b: "single_file ''fw.bin'' ?img (?argv ! 1) = Inr ?img" by (simp add: single_file_def)
  have c: "8 \<le> length ?img" by simp
  have d: "?img ! 0 = 0xE9 \<and> ?img ! 1 = 0x03 \<and> ?img ! 2 = 0x02" by simp
  show ?thesis
    using a b c d C4_fields_and_candidates [of ?argv "single_file ''fw.bin'' ?img" ?img]
    by blast
qed

end
